theory Spec2Isabelle
  imports Main "HOL-Library.Word"
begin

section \<open>The BPF syscall gateway of libbpf\_android (BpfUtils.h)\<close>

text \<open>
  The header holds one inline wrapper per command of the multiplexed \<open>bpf(2)\<close> system
  call. Each wrapper builds a \<open>bpf_attr\<close> with designated initializers, hands it to
  \<open>bpf\<close>, and returns what \<open>bpf\<close> returns. The kernel, the C library and the
  kernel headers are not part of the source: they enter the model as one parameter, the
  \<open>platform\<close>.
\<close>

subsection \<open>Machine types\<close>

text \<open>
  Fixed-width integers are words. A C \<open>int\<close> is a 32-bit word read with \<open>sint\<close>; the
  model takes the LP64 data model of the 64-bit Android ABIs, where \<open>long\<close> and
  \<open>uintptr_t\<close> have 64 bits. A pointer is the address it holds.
\<close>

type_synonym u32 = "32 word"
type_synonym u64 = "64 word"
type_synonym c_int = "32 word"
type_synonym c_long = "64 word"
type_synonym uintptr = "64 word"

definition NULL :: uintptr where
  "NULL = 0"

text \<open>\<^verbatim>\<open>#define ptr_to_u64(x) ((uint64_t)(uintptr_t)(x))\<close>\<close>

definition ptr_to_u64 :: "uintptr \<Rightarrow> u64" where
  "ptr_to_u64 x = ucast x"

text \<open>
  Modelled from the spec: \<open>android-base/unique_fd.h\<close> is not among the sources. The spec
  calls it a unique owned file descriptor; the wrappers receive it by const reference and
  only read the descriptor with \<open>get()\<close>.
\<close>

record unique_fd =
  fd_val :: c_int

definition get :: "unique_fd \<Rightarrow> c_int" where
  "get h = fd_val h"

subsection \<open>The attribute union\<close>

text \<open>
  \<open>enum bpf_cmd\<close> of \<open>linux/bpf.h\<close>: the enumerators the wrappers use.
\<close>

datatype bpf_cmd =
    BPF_MAP_CREATE
  | BPF_MAP_LOOKUP_ELEM
  | BPF_MAP_UPDATE_ELEM
  | BPF_MAP_DELETE_ELEM
  | BPF_MAP_GET_NEXT_KEY
  | BPF_OBJ_PIN
  | BPF_OBJ_GET
  | BPF_PROG_ATTACH
  | BPF_PROG_DETACH

text \<open>
  \<open>union bpf_attr\<close> of \<open>linux/bpf.h\<close> is a union of anonymous structs, one per
  family of commands. Each struct is a record with the members the wrappers name; the
  members the kernel header declares behind them are the extension slot of the record,
  of any type with a zero. The enums \<open>bpf_map_type\<close> and \<open>bpf_attach_type\<close> are
  stored into \<open>__u32\<close> members, so the model takes their numeric value. In the struct of
  the \<open>BPF_MAP_*_ELEM\<close> commands, \<open>value\<close> and \<open>next_key\<close> are the two names of one
  anonymous union of two 64-bit members: one slot, \<open>value_next_key\<close>.
\<close>

record map_create_attr =
  map_type :: u32
  key_size :: u32
  value_size :: u32
  max_entries :: u32
  map_flags :: u32

record map_elem_attr =
  map_fd :: u32
  key :: u64
  value_next_key :: u64
  flags :: u64

record obj_attr =
  pathname :: u64
  bpf_fd :: u32
  file_flags :: u32

record prog_attach_attr =
  target_fd :: u32
  attach_bpf_fd :: u32
  attach_type :: u32

datatype 'z bpf_attr =
    Map_create "'z map_create_attr_scheme"
  | Map_elem "'z map_elem_attr_scheme"
  | Obj "'z obj_attr_scheme"
  | Prog_attach "'z prog_attach_attr_scheme"

text \<open>
  A braced initializer gives every member without a designator the value zero. The
  wrappers' initializers are therefore updates of the all-zero struct.
\<close>

definition zero_map_create :: "('z::zero) map_create_attr_scheme" where
  "zero_map_create =
     \<lparr>map_type = 0, key_size = 0, value_size = 0, max_entries = 0, map_flags = 0, \<dots> = 0\<rparr>"

definition zero_map_elem :: "('z::zero) map_elem_attr_scheme" where
  "zero_map_elem = \<lparr>map_fd = 0, key = 0, value_next_key = 0, flags = 0, \<dots> = 0\<rparr>"

definition zero_obj :: "('z::zero) obj_attr_scheme" where
  "zero_obj = \<lparr>pathname = 0, bpf_fd = 0, file_flags = 0, \<dots> = 0\<rparr>"

definition zero_prog_attach :: "('z::zero) prog_attach_attr_scheme" where
  "zero_prog_attach = \<lparr>target_fd = 0, attach_bpf_fd = 0, attach_type = 0, \<dots> = 0\<rparr>"

subsection \<open>The platform\<close>

text \<open>
  What the source takes from outside: the C library's \<open>syscall\<close> entry (number,
  command, attribute, size; it returns a \<open>long\<close> and changes the world \<open>'w\<close>: kernel
  objects, descriptor table, user memory, \<open>errno\<close>), the number \<open>__NR_bpf\<close> of
  \<open>linux/unistd.h\<close>, and \<open>sizeof(bpf_attr)\<close>.
\<close>

record ('z, 'w) platform =
  syscall :: "nat \<Rightarrow> bpf_cmd \<Rightarrow> 'z bpf_attr \<Rightarrow> nat \<Rightarrow> 'w \<Rightarrow> c_long \<times> 'w"
  NR_bpf :: nat
  sizeof_bpf_attr :: nat

subsection \<open>The wrappers\<close>

text \<open>
  \<^verbatim>\<open>static inline int bpf(int cmd, const bpf_attr& attr) {
    return syscall(__NR_bpf, cmd, &attr, sizeof(attr)); }\<close>
  The \<open>long\<close> of \<open>syscall\<close> is converted to the \<open>int\<close> that \<open>bpf\<close> returns.
\<close>

definition bpf :: "('z, 'w) platform \<Rightarrow> bpf_cmd \<Rightarrow> 'z bpf_attr \<Rightarrow> 'w \<Rightarrow> c_int \<times> 'w" where
  "bpf P cmd attr w =
     (case syscall P (NR_bpf P) cmd attr (sizeof_bpf_attr P) w of
        (r, w') \<Rightarrow> (scast r, w'))"

definition createMap ::
  "('z::zero, 'w) platform \<Rightarrow> u32 \<Rightarrow> u32 \<Rightarrow> u32 \<Rightarrow> u32 \<Rightarrow> u32 \<Rightarrow> 'w \<Rightarrow> c_int \<times> 'w" where
  "createMap P = (\<lambda>map_type key_size value_size max_entries map_flags.
     bpf P BPF_MAP_CREATE (Map_create (zero_map_create
       \<lparr>map_type := map_type,
        key_size := key_size,
        value_size := value_size,
        max_entries := max_entries,
        map_flags := map_flags\<rparr>)))"

definition writeToMapEntry ::
  "('z::zero, 'w) platform \<Rightarrow> unique_fd \<Rightarrow> uintptr \<Rightarrow> uintptr \<Rightarrow> u64 \<Rightarrow> 'w \<Rightarrow> c_int \<times> 'w" where
  "writeToMapEntry P = (\<lambda>map_fd key value flags.
     bpf P BPF_MAP_UPDATE_ELEM (Map_elem (zero_map_elem
       \<lparr>map_fd := ucast (get map_fd),
        key := ptr_to_u64 key,
        value_next_key := ptr_to_u64 value,
        flags := flags\<rparr>)))"

definition findMapEntry ::
  "('z::zero, 'w) platform \<Rightarrow> unique_fd \<Rightarrow> uintptr \<Rightarrow> uintptr \<Rightarrow> 'w \<Rightarrow> c_int \<times> 'w" where
  "findMapEntry P = (\<lambda>map_fd key value.
     bpf P BPF_MAP_LOOKUP_ELEM (Map_elem (zero_map_elem
       \<lparr>map_fd := ucast (get map_fd),
        key := ptr_to_u64 key,
        value_next_key := ptr_to_u64 value\<rparr>)))"

definition deleteMapEntry ::
  "('z::zero, 'w) platform \<Rightarrow> unique_fd \<Rightarrow> uintptr \<Rightarrow> 'w \<Rightarrow> c_int \<times> 'w" where
  "deleteMapEntry P = (\<lambda>map_fd key.
     bpf P BPF_MAP_DELETE_ELEM (Map_elem (zero_map_elem
       \<lparr>map_fd := ucast (get map_fd),
        key := ptr_to_u64 key\<rparr>)))"

definition getNextMapKey ::
  "('z::zero, 'w) platform \<Rightarrow> unique_fd \<Rightarrow> uintptr \<Rightarrow> uintptr \<Rightarrow> 'w \<Rightarrow> c_int \<times> 'w" where
  "getNextMapKey P = (\<lambda>map_fd key next_key.
     bpf P BPF_MAP_GET_NEXT_KEY (Map_elem (zero_map_elem
       \<lparr>map_fd := ucast (get map_fd),
        key := ptr_to_u64 key,
        value_next_key := ptr_to_u64 next_key\<rparr>)))"

definition getFirstMapKey ::
  "('z::zero, 'w) platform \<Rightarrow> unique_fd \<Rightarrow> uintptr \<Rightarrow> 'w \<Rightarrow> c_int \<times> 'w" where
  "getFirstMapKey P = (\<lambda>map_fd firstKey. getNextMapKey P map_fd NULL firstKey)"

definition bpfFdPin ::
  "('z::zero, 'w) platform \<Rightarrow> unique_fd \<Rightarrow> uintptr \<Rightarrow> 'w \<Rightarrow> c_int \<times> 'w" where
  "bpfFdPin P = (\<lambda>map_fd pathname.
     bpf P BPF_OBJ_PIN (Obj (zero_obj
       \<lparr>pathname := ptr_to_u64 pathname,
        bpf_fd := ucast (get map_fd)\<rparr>)))"

definition bpfFdGet ::
  "('z::zero, 'w) platform \<Rightarrow> uintptr \<Rightarrow> u32 \<Rightarrow> 'w \<Rightarrow> c_int \<times> 'w" where
  "bpfFdGet P = (\<lambda>pathname flag.
     bpf P BPF_OBJ_GET (Obj (zero_obj
       \<lparr>pathname := ptr_to_u64 pathname,
        file_flags := flag\<rparr>)))"

definition mapRetrieve ::
  "('z::zero, 'w) platform \<Rightarrow> uintptr \<Rightarrow> u32 \<Rightarrow> 'w \<Rightarrow> c_int \<times> 'w" where
  "mapRetrieve P = (\<lambda>pathname flag. bpfFdGet P pathname flag)"

definition attachProgram ::
  "('z::zero, 'w) platform \<Rightarrow> u32 \<Rightarrow> unique_fd \<Rightarrow> unique_fd \<Rightarrow> 'w \<Rightarrow> c_int \<times> 'w" where
  "attachProgram P = (\<lambda>type prog_fd cg_fd.
     bpf P BPF_PROG_ATTACH (Prog_attach (zero_prog_attach
       \<lparr>target_fd := ucast (get cg_fd),
        attach_bpf_fd := ucast (get prog_fd),
        attach_type := type\<rparr>)))"

definition detachProgram ::
  "('z::zero, 'w) platform \<Rightarrow> u32 \<Rightarrow> unique_fd \<Rightarrow> 'w \<Rightarrow> c_int \<times> 'w" where
  "detachProgram P = (\<lambda>type cg_fd.
     bpf P BPF_PROG_DETACH (Prog_attach (zero_prog_attach
       \<lparr>target_fd := ucast (get cg_fd),
        attach_type := type\<rparr>)))"

subsection \<open>Calls of the gateway\<close>

text \<open>
  One constructor per wrapper, with the wrapper's arguments, so that a statement can
  range over every call a client can make. \<open>invoke\<close> runs the wrapper.
\<close>

datatype operation =
    CreateMap u32 u32 u32 u32 u32
  | WriteToMapEntry unique_fd uintptr uintptr u64
  | FindMapEntry unique_fd uintptr uintptr
  | DeleteMapEntry unique_fd uintptr
  | GetNextMapKey unique_fd uintptr uintptr
  | GetFirstMapKey unique_fd uintptr
  | BpfFdPin unique_fd uintptr
  | BpfFdGet uintptr u32
  | MapRetrieve uintptr u32
  | AttachProgram u32 unique_fd unique_fd
  | DetachProgram u32 unique_fd

fun invoke :: "('z::zero, 'w) platform \<Rightarrow> operation \<Rightarrow> 'w \<Rightarrow> c_int \<times> 'w" where
  "invoke P (CreateMap mt ks vs me mf) = createMap P mt ks vs me mf"
| "invoke P (WriteToMapEntry h k v fl) = writeToMapEntry P h k v fl"
| "invoke P (FindMapEntry h k v) = findMapEntry P h k v"
| "invoke P (DeleteMapEntry h k) = deleteMapEntry P h k"
| "invoke P (GetNextMapKey h k nk) = getNextMapKey P h k nk"
| "invoke P (GetFirstMapKey h nk) = getFirstMapKey P h nk"
| "invoke P (BpfFdPin h p) = bpfFdPin P h p"
| "invoke P (BpfFdGet p ff) = bpfFdGet P p ff"
| "invoke P (MapRetrieve p ff) = mapRetrieve P p ff"
| "invoke P (AttachProgram t pf cf) = attachProgram P t pf cf"
| "invoke P (DetachProgram t cf) = detachProgram P t cf"

text \<open>A \<open>long\<close> whose value is in the range of \<open>int\<close>.\<close>

definition fits_int :: "c_long \<Rightarrow> bool" where
  "fits_int r = (- (2 ^ 31) \<le> sint r \<and> sint r < 2 ^ 31)"

subsection \<open>Two test platforms\<close>

text \<open>
  A kernel that answers from a script: each call returns the next scripted result,
  whatever the command, and \<open>-1\<close> once the script is used up. The numbers are those of
  one 64-bit ABI and one header version; nothing depends on them.
\<close>

definition scripted_platform :: "(u64, c_long list) platform" where
  "scripted_platform =
     \<lparr>syscall = (\<lambda>nr cmd attr size w. case w of [] \<Rightarrow> (- 1, []) | r # rs \<Rightarrow> (r, rs)),
      NR_bpf = 280,
      sizeof_bpf_attr = 72\<rparr>"

text \<open>
  A kernel whose world is the list of open descriptors: creating a map and opening a
  pinned object each open a descriptor, every other command fails, none closes one.
\<close>

definition fd_table_platform :: "(u64, c_int list) platform" where
  "fd_table_platform =
     \<lparr>syscall = (\<lambda>nr cmd attr size fds.
        case cmd of
          BPF_MAP_CREATE \<Rightarrow> (3, 3 # fds)
        | BPF_OBJ_GET \<Rightarrow> (4, 4 # fds)
        | _ \<Rightarrow> (- 1, fds)),
      NR_bpf = 280,
      sizeof_bpf_attr = 72\<rparr>"

section \<open>Properties\<close>

lemmas wrapper_defs =
  createMap_def writeToMapEntry_def findMapEntry_def deleteMapEntry_def getNextMapKey_def
  getFirstMapKey_def bpfFdPin_def bpfFdGet_def mapRetrieve_def attachProgram_def
  detachProgram_def

lemmas zero_attr_defs =
  zero_map_create_def zero_map_elem_def zero_obj_def zero_prog_attach_def

lemma scast_fits_int: "fits_int r \<Longrightarrow> sint (scast r :: c_int) = sint r"
  by (simp add: fits_int_def signed_scast_eq signed_take_bit_int_eq_self)

lemma bpf_unfold:
  "bpf P cmd attr w =
     (scast (fst (syscall P (NR_bpf P) cmd attr (sizeof_bpf_attr P) w)),
      snd (syscall P (NR_bpf P) cmd attr (sizeof_bpf_attr P) w))"
  by (simp add: bpf_def split: prod.split)

text \<open>Every wrapper is one call of \<open>bpf\<close>, on a command and an attribute fixed by its arguments.\<close>

lemma invoke_is_bpf:
  "\<exists>cmd attr. \<forall>P :: ('z::zero, 'w) platform. invoke P op = bpf P cmd attr"
  by (cases op) (simp_all add: wrapper_defs, blast+)

subsection \<open>Zero-initialized attributes\<close>

text \<open>
  Claim C1. For each of createMap, writeToMapEntry, findMapEntry, deleteMapEntry,
  getNextMapKey, bpfFdPin, bpfFdGet, attachProgram and detachProgram, the attribute
  handed to \<open>bpf\<close> holds the wrapper's arguments in the members its initializer
  designates and zero in every other member of the struct, the members behind the named
  ones included.
\<close>

theorem attr_zero_outside_designators:
  "createMap P mt ks vs me mf = bpf P BPF_MAP_CREATE (Map_create
     \<lparr>map_type = mt, key_size = ks, value_size = vs, max_entries = me, map_flags = mf,
      \<dots> = 0\<rparr>)
 \<and> writeToMapEntry P h k v fl = bpf P BPF_MAP_UPDATE_ELEM (Map_elem
     \<lparr>map_fd = ucast (get h), key = ptr_to_u64 k, value_next_key = ptr_to_u64 v, flags = fl,
      \<dots> = 0\<rparr>)
 \<and> findMapEntry P h k v = bpf P BPF_MAP_LOOKUP_ELEM (Map_elem
     \<lparr>map_fd = ucast (get h), key = ptr_to_u64 k, value_next_key = ptr_to_u64 v, flags = 0,
      \<dots> = 0\<rparr>)
 \<and> deleteMapEntry P h k = bpf P BPF_MAP_DELETE_ELEM (Map_elem
     \<lparr>map_fd = ucast (get h), key = ptr_to_u64 k, value_next_key = 0, flags = 0,
      \<dots> = 0\<rparr>)
 \<and> getNextMapKey P h k nk = bpf P BPF_MAP_GET_NEXT_KEY (Map_elem
     \<lparr>map_fd = ucast (get h), key = ptr_to_u64 k, value_next_key = ptr_to_u64 nk, flags = 0,
      \<dots> = 0\<rparr>)
 \<and> bpfFdPin P h p = bpf P BPF_OBJ_PIN (Obj
     \<lparr>pathname = ptr_to_u64 p, bpf_fd = ucast (get h), file_flags = 0, \<dots> = 0\<rparr>)
 \<and> bpfFdGet P p ff = bpf P BPF_OBJ_GET (Obj
     \<lparr>pathname = ptr_to_u64 p, bpf_fd = 0, file_flags = ff, \<dots> = 0\<rparr>)
 \<and> attachProgram P t pf cf = bpf P BPF_PROG_ATTACH (Prog_attach
     \<lparr>target_fd = ucast (get cf), attach_bpf_fd = ucast (get pf), attach_type = t,
      \<dots> = 0\<rparr>)
 \<and> detachProgram P t cf = bpf P BPF_PROG_DETACH (Prog_attach
     \<lparr>target_fd = ucast (get cf), attach_bpf_fd = 0, attach_type = t, \<dots> = 0\<rparr>)"
  by (simp add: wrapper_defs zero_attr_defs)

subsection \<open>The result is the result of the system call\<close>

text \<open>
  Claim C2. Every operation makes one system call and hands its outcome on: the world
  after the operation (with the last-error value in it) is the world the system call
  left, and the value returned is the system call's \<open>long\<close> converted to \<open>int\<close>. For
  every result in the range of \<open>int\<close>, which holds \<open>-1\<close>, \<open>0\<close> and every descriptor,
  that is the same number, so the operation's result is negative exactly when the system
  call's is. Nothing is retried, masked or recovered.
\<close>

theorem result_propagated_verbatim:
  "\<exists>cmd attr. \<forall>(P :: ('z::zero, 'w) platform) w r w'.
     syscall P (NR_bpf P) cmd attr (sizeof_bpf_attr P) w = (r, w') \<longrightarrow>
       invoke P op w = (scast r, w') \<and>
       (fits_int r \<longrightarrow>
          sint (fst (invoke P op w)) = sint r \<and>
          (sint (fst (invoke P op w)) < 0 \<longleftrightarrow> sint r < 0))"
proof -
  obtain cmd attr where e: "\<And>P :: ('z, 'w) platform. invoke P op = bpf P cmd attr"
    using invoke_is_bpf [of op, where ?'z = 'z and ?'w = 'w] by blast
  show ?thesis
  proof (intro exI [of _ cmd] exI [of _ attr] allI impI)
    fix P :: "('z, 'w) platform" and w r w'
    assume "syscall P (NR_bpf P) cmd attr (sizeof_bpf_attr P) w = (r, w')"
    then show "invoke P op w = (scast r, w') \<and>
       (fits_int r \<longrightarrow>
          sint (fst (invoke P op w)) = sint r \<and>
          (sint (fst (invoke P op w)) < 0 \<longleftrightarrow> sint r < 0))"
      by (simp add: e bpf_def scast_fits_int)
  qed
qed

theorem result_propagated_verbatim_witness:
  "fits_int (- 1)
   \<and> invoke scripted_platform (FindMapEntry \<lparr>fd_val = 3\<rparr> 4096 8192) [- 1, 7] = (- 1, [7])
   \<and> sint (fst (invoke scripted_platform (FindMapEntry \<lparr>fd_val = 3\<rparr> 4096 8192) [- 1, 7])) < 0"
proof -
  let ?op = "FindMapEntry \<lparr>fd_val = 3\<rparr> 4096 8192"
  obtain cmd attr where h:
    "\<And>(P :: (u64, c_long list) platform) w r w'.
       syscall P (NR_bpf P) cmd attr (sizeof_bpf_attr P) w = (r, w') \<Longrightarrow>
         invoke P ?op w = (scast r, w') \<and>
         (fits_int r \<longrightarrow>
            sint (fst (invoke P ?op w)) = sint r \<and>
            (sint (fst (invoke P ?op w)) < 0 \<longleftrightarrow> sint r < 0))"
    using result_propagated_verbatim [of ?op, where ?'z = u64 and ?'w = "c_long list"]
    by blast
  have s: "syscall scripted_platform (NR_bpf scripted_platform) cmd attr
             (sizeof_bpf_attr scripted_platform) [- 1, 7] = (- 1, [7])"
    by (simp add: scripted_platform_def)
  have f: "fits_int (- 1)"
    by (simp add: fits_int_def)
  from h [OF s] f show ?thesis
    by simp
qed

subsection \<open>The first key\<close>

text \<open>
  Claim C8. getFirstMapKey is getNextMapKey with no prior key: the same call of
  \<open>bpf\<close>, with command \<open>BPF_MAP_GET_NEXT_KEY\<close>, the null address in \<open>key\<close> and
  the output buffer in \<open>next_key\<close>, hence the same result and the same effect on the
  world.
\<close>

theorem getFirstMapKey_is_getNextMapKey_NULL:
  "getFirstMapKey P h firstKey w = getNextMapKey P h NULL firstKey w
   \<and> getFirstMapKey P h firstKey w = bpf P BPF_MAP_GET_NEXT_KEY (Map_elem
       \<lparr>map_fd = ucast (get h), key = 0, value_next_key = ptr_to_u64 firstKey,
        flags = 0, \<dots> = 0\<rparr>) w"
  by (simp add: getFirstMapKey_def getNextMapKey_def zero_map_elem_def NULL_def ptr_to_u64_def)

subsection \<open>The caller's handles\<close>

text \<open>
  Claim C9. The wrappers read a handle with \<open>get\<close> and do nothing else to it; all an
  operation does to the world is its one \<open>bpf\<close> system call. So every property of the
  world that this system call keeps (the caller's handle object holds the descriptor it
  held, and that descriptor is open) holds after the operation, whatever result it
  returns.
\<close>

theorem handles_left_as_syscall_leaves_them:
  assumes "\<And>cmd attr w. I w \<Longrightarrow> I (snd (syscall P (NR_bpf P) cmd attr (sizeof_bpf_attr P) w))"
    and "I w"
  shows "I (snd (invoke P op w))"
proof -
  obtain cmd attr where e: "invoke P op = bpf P cmd attr"
    using invoke_is_bpf [of op] by blast
  show ?thesis
    using assms by (simp add: e bpf_unfold)
qed

theorem handles_left_as_syscall_leaves_them_witness:
  "5 \<in> set [5 :: c_int]
   \<and> 5 \<in> set (snd (invoke fd_table_platform (DeleteMapEntry \<lparr>fd_val = 5\<rparr> 4096) [5]))
   \<and> fst (invoke fd_table_platform (DeleteMapEntry \<lparr>fd_val = 5\<rparr> 4096) [5]) = - 1"
proof -
  have keeps: "5 \<in> set fds \<Longrightarrow>
      5 \<in> set (snd (syscall fd_table_platform (NR_bpf fd_table_platform) cmd attr
                      (sizeof_bpf_attr fd_table_platform) fds))" for cmd attr fds
    by (cases cmd) (simp_all add: fd_table_platform_def)
  have start: "5 \<in> set [5 :: c_int]"
    by simp
  have "5 \<in> set (snd (invoke fd_table_platform (DeleteMapEntry \<lparr>fd_val = 5\<rparr> 4096) [5]))"
    by (rule handles_left_as_syscall_leaves_them [where I = "\<lambda>fds. 5 \<in> set fds"])
       (fact keeps, fact start)
  moreover have "fst (invoke fd_table_platform (DeleteMapEntry \<lparr>fd_val = 5\<rparr> 4096) [5]) = - 1"
    by (simp add: deleteMapEntry_def bpf_def fd_table_platform_def)
  ultimately show ?thesis
    by simp
qed

subsection \<open>The size argument\<close>

text \<open>
  Claim C10. Every operation calls the system call \<open>__NR_bpf\<close> with the size of the
  whole attribute union, \<open>sizeof(bpf_attr)\<close>, as its size argument, for every command.
\<close>

theorem size_argument_is_sizeof_bpf_attr:
  "\<exists>cmd attr. \<forall>(P :: ('z::zero, 'w) platform) w.
     invoke P op w =
       (case syscall P (NR_bpf P) cmd attr (sizeof_bpf_attr P) w of (r, w') \<Rightarrow> (scast r, w'))"
proof -
  obtain cmd attr where e: "\<And>P :: ('z, 'w) platform. invoke P op = bpf P cmd attr"
    using invoke_is_bpf [of op, where ?'z = 'z and ?'w = 'w] by blast
  show ?thesis
    by (intro exI [of _ cmd] exI [of _ attr] allI) (simp add: e bpf_def)
qed

end
